theory Spec2Isabelle
  imports Main
begin

section \<open>Go strings\<close>

text \<open>
  A Go \<^verbatim>\<open>string\<close> (and a \<^verbatim>\<open>[]byte\<close>) is a sequence of bytes: \<^verbatim>\<open>len(s)\<close> counts
  bytes and \<^verbatim>\<open>s[i:j]\<close> slices bytes. It is modelled as a HOL \<open>string\<close>, a list of
  8-bit characters, so \<open>length\<close> is \<^verbatim>\<open>len\<close>, \<^verbatim>\<open>s[0:2]\<close> is \<open>take 2 s\<close> and
  \<^verbatim>\<open>s[2:]\<close> is \<open>drop 2 s\<close> (both in range when \<open>2 \<le> length s\<close>).
\<close>

definition is_ascii :: "char \<Rightarrow> bool" where
  "is_ascii c \<longleftrightarrow> (of_char c :: nat) < 128"

definition upper_byte :: "char \<Rightarrow> char" where
  "upper_byte c =
     (if 97 \<le> (of_char c :: nat) \<and> (of_char c :: nat) \<le> 122
      then char_of ((of_char c :: nat) - 32) else c)"

definition lower_byte :: "char \<Rightarrow> char" where
  "lower_byte c =
     (if 65 \<le> (of_char c :: nat) \<and> (of_char c :: nat) \<le> 90
      then char_of ((of_char c :: nat) + 32) else c)"

text \<open>The double quote, and the bytes \<^verbatim>\<open>json.Marshal\<close> writes as they are.\<close>

definition dq :: char where
  "dq = CHR 0x22"

definition json_plain :: "char \<Rightarrow> bool" where
  "json_plain c \<longleftrightarrow>
     32 \<le> (of_char c :: nat) \<and> (of_char c :: nat) < 127 \<and>
     c \<noteq> CHR 0x22 \<and> c \<noteq> CHR 0x5C \<and> c \<noteq> CHR ''<'' \<and> c \<noteq> CHR ''>'' \<and> c \<noteq> CHR ''&''"

section \<open>Data model\<close>

text \<open>The constants of \<^verbatim>\<open>vies.go\<close>.\<close>

definition ViesEndpointUrl :: string where
  "ViesEndpointUrl = ''https://ec.europa.eu/taxation_customs/vies/rest-api/''"

definition ViesCheckStatusPath :: string where
  "ViesCheckStatusPath = ''check-status''"

definition ViesCheckVatPath :: string where
  "ViesCheckVatPath = ''check-vat-number''"

text \<open>
  Go's \<^verbatim>\<open>error\<close> values, as far as this package produces or passes them:
  a \<^verbatim>\<open>*ValidationError\<close> with its two fields, a value of \<^verbatim>\<open>fmt.Errorf\<close> with its
  rendered text, and an error value returned by a call into the standard library
  (\<^verbatim>\<open>encoding/json\<close>, \<^verbatim>\<open>net/url\<close>, \<^verbatim>\<open>net/http\<close>, \<^verbatim>\<open>io\<close>) with its text.
  A Go result of type \<^verbatim>\<open>error\<close> is an \<open>error option\<close>, \<open>None\<close> for \<^verbatim>\<open>nil\<close>.
\<close>

datatype error =
    ValidationError string string
  | Errorf string
  | LibraryError string

fun Error :: "error \<Rightarrow> string" where
  "Error (ValidationError err message) = err @ '': '' @ message"
| "Error (Errorf text) = text"
| "Error (LibraryError text) = text"

record CheckResult =
  CountryCode :: string
  VatNumber :: string
  Vat :: string
  Valid :: bool
  Name :: string

text \<open>The zero value of \<^verbatim>\<open>var status CheckResult\<close>.\<close>

definition CheckResult_zero :: CheckResult where
  "CheckResult_zero = \<lparr>CountryCode = [], VatNumber = [], Vat = [], Valid = False, Name = []\<rparr>"

type_synonym Availability = string

definition AvailabilityAvailable :: Availability where
  "AvailabilityAvailable = ''available''"

definition AvailabilityUnavailable :: Availability where
  "AvailabilityUnavailable = ''unavailable''"

definition AvailabilityMonitoringDisabled :: Availability where
  "AvailabilityMonitoringDisabled = ''monitoring disabled''"

record statusErrorWrapper =
  wrapper_Error :: string
  wrapper_Message :: string

record statusErrorResponse =
  ActionSucceed :: bool
  ErrorWrappers :: "statusErrorWrapper list"

record checkRequest =
  req_CountryCode :: string
  req_VatNumber :: string

section \<open>The HTTP exchange\<close>

text \<open>
  What \<^verbatim>\<open>http.NewRequestWithContext\<close> builds and \<^verbatim>\<open>client.Do\<close> receives: the context
  the request is bound to, the method, the URL text, the headers and the body bytes
  (\<open>None\<close> for a nil body). A response is its status code and what \<^verbatim>\<open>io.ReadAll\<close>
  gives on its body, the bytes or a read error.
\<close>

record 'c request =
  Ctx :: 'c
  Method :: string
  URL :: string
  Header :: "(string \<times> string) list"
  Body :: "string option"

record response =
  StatusCode :: int
  ReadAll :: "string + string"

definition Header_Set :: "(string \<times> string) list \<Rightarrow> string \<Rightarrow> string \<Rightarrow> (string \<times> string) list" where
  "Header_Set h k val = filter (\<lambda>kv. fst kv \<noteq> k) h @ [(k, val)]"

record ('u, 'c) Validator =
  endpoint :: 'u
  client :: "'c request \<Rightarrow> string + response"

section \<open>The standard library\<close>

text \<open>
  The package calls into Go's standard library, whose code is not part of the
  repository. Each such call is a field of the record below, so every theorem holds
  for whatever these functions compute; an error they return is given by its text.
  \<^item> \<open>unicode_ToUpper\<close>, \<open>unicode_ToLower\<close>: \<^verbatim>\<open>strings.Map(unicode.ToUpper, s)\<close> and
    \<^verbatim>\<open>strings.Map(unicode.ToLower, s)\<close>, the path \<^verbatim>\<open>strings.ToUpper\<close> and
    \<^verbatim>\<open>strings.ToLower\<close> take on a string with a byte outside ASCII;
  \<^item> \<open>strconv_Quote\<close>: the rendering of the verb \<^verbatim>\<open>%q\<close>;
  \<^item> \<open>url_Parse\<close>, \<open>url_IsAbs\<close>, \<open>url_JoinPath\<close>: \<^verbatim>\<open>url.Parse\<close>, \<^verbatim>\<open>(*URL).IsAbs\<close> and
    \<^verbatim>\<open>u.JoinPath(path).String()\<close> over the type \<open>'u\<close> of parsed URLs;
  \<^item> \<open>http_NewRequest_check\<close>: the error \<^verbatim>\<open>http.NewRequestWithContext\<close> returns, if any;
  \<^item> \<open>http_DefaultClient\<close>: \<^verbatim>\<open>http.DefaultClient\<close>;
  \<^item> \<open>json_Marshal_string_esc\<close>, \<open>json_Unmarshal_string_gen\<close>: \<^verbatim>\<open>json.Marshal\<close> of a
    string and \<^verbatim>\<open>json.Unmarshal\<close> into a string, outside the plain case written
    out below;
  \<^item> \<open>json_Unmarshal_CheckResult\<close>: \<^verbatim>\<open>json.Unmarshal\<close> into a \<^verbatim>\<open>*CheckResult\<close>, which
    returns its error and leaves the fields it has set in the target;
  \<^item> \<open>json_Unmarshal_statusErrorResponse\<close>: \<^verbatim>\<open>json.Unmarshal\<close> into the zero
    \<^verbatim>\<open>statusErrorResponse\<close>: the error, or the decoded envelope.
\<close>

record ('u, 'c) stdlib =
  unicode_ToUpper :: "string \<Rightarrow> string"
  unicode_ToLower :: "string \<Rightarrow> string"
  strconv_Quote :: "string \<Rightarrow> string"
  url_Parse :: "string \<Rightarrow> string + 'u"
  url_IsAbs :: "'u \<Rightarrow> bool"
  url_JoinPath :: "'u \<Rightarrow> string \<Rightarrow> string"
  http_NewRequest_check :: "'c \<Rightarrow> string \<Rightarrow> string \<Rightarrow> string option"
  http_DefaultClient :: "'c request \<Rightarrow> string + response"
  json_Marshal_string_esc :: "string \<Rightarrow> string + string"
  json_Unmarshal_string_gen :: "string \<Rightarrow> string + string"
  json_Unmarshal_CheckResult :: "string \<Rightarrow> CheckResult \<Rightarrow> string option \<times> CheckResult"
  json_Unmarshal_statusErrorResponse :: "string \<Rightarrow> string + statusErrorResponse"

text \<open>
  \<^verbatim>\<open>strings.ToUpper\<close> and \<^verbatim>\<open>strings.ToLower\<close>: on a string of ASCII bytes only, each
  letter is shifted by \<^verbatim>\<open>'a' - 'A'\<close> and every other byte is kept; any other string
  goes through the Unicode tables.
\<close>

definition strings_ToUpper :: "('u, 'c) stdlib \<Rightarrow> string \<Rightarrow> string" where
  "strings_ToUpper L s = (if list_all is_ascii s then map upper_byte s else unicode_ToUpper L s)"

definition strings_ToLower :: "('u, 'c) stdlib \<Rightarrow> string \<Rightarrow> string" where
  "strings_ToLower L s = (if list_all is_ascii s then map lower_byte s else unicode_ToLower L s)"

text \<open>
  \<^verbatim>\<open>json.Marshal\<close> of a string whose bytes are all printable ASCII other than the
  double quote, the backslash and the three characters the encoder escapes for HTML
  is the string between double quotes; \<^verbatim>\<open>json.Unmarshal\<close> of such a text into a
  string gives the string back.
\<close>

definition json_Marshal_string :: "('u, 'c) stdlib \<Rightarrow> string \<Rightarrow> string + string" where
  "json_Marshal_string L s =
     (if list_all json_plain s then Inr ([dq] @ s @ [dq]) else json_Marshal_string_esc L s)"

definition json_Unmarshal_string :: "('u, 'c) stdlib \<Rightarrow> string \<Rightarrow> string + string" where
  "json_Unmarshal_string L data =
     (if 2 \<le> length data \<and> hd data = dq \<and> last data = dq \<and> list_all json_plain (butlast (tl data))
      then Inr (butlast (tl data)) else json_Unmarshal_string_gen L data)"

text \<open>
  \<^verbatim>\<open>json.Marshal\<close> of a \<^verbatim>\<open>*checkRequest\<close>: the object of its two fields, under the
  names their \<^verbatim>\<open>json\<close> tags give and in the order of the declaration, each value
  encoded as \<^verbatim>\<open>json.Marshal\<close> encodes a string.
\<close>

definition json_Marshal_checkRequest ::
  "('u, 'c) stdlib \<Rightarrow> checkRequest \<Rightarrow> string + string" where
  \<open>json_Marshal_checkRequest L r =
     (case json_Marshal_string L (req_CountryCode r) of
        Inl err \<Rightarrow> Inl err
      | Inr cc \<Rightarrow>
          (case json_Marshal_string L (req_VatNumber r) of
             Inl err \<Rightarrow> Inl err
           | Inr vn \<Rightarrow> Inr (''{"countryCode":'' @ cc @ '',"vatNumber":'' @ vn @ ''}'')))\<close>

section \<open>Availability\<close>

text \<open>
  \<^verbatim>\<open>func (a *Availability) UnmarshalJSON(data []byte) error\<close>: the model takes the
  value \<^verbatim>\<open>*a\<close> holds before the call and returns the error together with the value
  it holds after.
\<close>

definition UnmarshalJSON ::
  "('u, 'c) stdlib \<Rightarrow> Availability \<Rightarrow> string \<Rightarrow> error option \<times> Availability" where
  "UnmarshalJSON L a data =
     (case json_Unmarshal_string L data of
        Inl err \<Rightarrow> (Some (LibraryError err), a)
      | Inr decoded \<Rightarrow>
          (let val = strings_ToLower L decoded in
           if val = AvailabilityAvailable \<or> val = AvailabilityUnavailable
              \<or> val = AvailabilityMonitoringDisabled
           then (None, val)
           else (Some (Errorf (''invalid availability: '' @ strconv_Quote L val)), a)))"

text \<open>\<^verbatim>\<open>func (a Availability) MarshalJSON() ([]byte, error)\<close>.\<close>

definition MarshalJSON :: "('u, 'c) stdlib \<Rightarrow> Availability \<Rightarrow> error + string" where
  "MarshalJSON L a =
     (if a = AvailabilityAvailable \<or> a = AvailabilityUnavailable
         \<or> a = AvailabilityMonitoringDisabled
      then (case json_Marshal_string L a of
              Inl err \<Rightarrow> Inl (LibraryError err)
            | Inr bs \<Rightarrow> Inr bs)
      else Inl (Errorf (''invalid availability: '' @ strconv_Quote L a)))"

section \<open>The Validator\<close>

text \<open>
  \<^verbatim>\<open>NewValidator(client, endpoint)\<close>: a nil client is \<open>None\<close>; the result is the
  error or the Validator.
\<close>

definition NewValidator ::
  "('u, 'c) stdlib \<Rightarrow> ('c request \<Rightarrow> string + response) option \<Rightarrow> string \<Rightarrow>
   error + ('u, 'c) Validator" where
  "NewValidator L cl ep =
     (let ep' = (if ep = [] then ViesEndpointUrl else ep) in
      case url_Parse L ep' of
        Inl err \<Rightarrow> Inl (LibraryError err)
      | Inr u \<Rightarrow>
          Inr \<lparr>endpoint = u,
               client = (case cl of None \<Rightarrow> http_DefaultClient L | Some c \<Rightarrow> c)\<rparr>)"

text \<open>\<^verbatim>\<open>doError(body)\<close>; the receiver is not used.\<close>

definition doError :: "('u, 'c) stdlib \<Rightarrow> string \<Rightarrow> error option" where
  "doError L body =
     (case json_Unmarshal_statusErrorResponse L body of
        Inl err \<Rightarrow> Some (LibraryError err)
      | Inr e \<Rightarrow>
          if length (ErrorWrappers e) > 0
          then (let err = ErrorWrappers e ! 0
                in Some (ValidationError (wrapper_Error err) (wrapper_Message err)))
          else Some (Errorf ''invalid response structure''))"

text \<open>
  \<^verbatim>\<open>doJSON(ctx, method, path, reqBody, out)\<close>. \<^verbatim>\<open>json.Marshal\<close> at the type of
  \<^verbatim>\<open>reqBody\<close> and \<^verbatim>\<open>json.Unmarshal\<close> at the type of \<^verbatim>\<open>out\<close> are the arguments
  \<open>marshal\<close> and \<open>unmarshal\<close>; a nil \<^verbatim>\<open>reqBody\<close> is \<open>None\<close>. The result is the error
  returned, the value \<^verbatim>\<open>out\<close> points to afterwards, and the requests handed to
  \<^verbatim>\<open>v.client.Do\<close>, in order.
\<close>

definition doJSON ::
  "('u, 'c) stdlib \<Rightarrow> ('u, 'c) Validator \<Rightarrow> 'c \<Rightarrow> string \<Rightarrow> string \<Rightarrow>
   ('r \<Rightarrow> string + string) \<Rightarrow> 'r option \<Rightarrow>
   (string \<Rightarrow> 'o \<Rightarrow> error option \<times> 'o) \<Rightarrow> 'o \<Rightarrow>
   (error option \<times> 'o) \<times> 'c request list" where
  "doJSON L v ctx method path marshal reqBody unmarshal out =
     (case (case reqBody of
              None \<Rightarrow> Inr None
            | Some r \<Rightarrow> (case marshal r of
                           Inl err \<Rightarrow> Inl err
                         | Inr reqBytes \<Rightarrow> Inr (Some reqBytes))) of
        Inl err \<Rightarrow> ((Some (LibraryError err), out), [])
      | Inr body \<Rightarrow>
          (let url = url_JoinPath L (endpoint v) path in
           case http_NewRequest_check L ctx method url of
             Some err \<Rightarrow> ((Some (LibraryError err), out), [])
           | None \<Rightarrow>
               (let req0 = \<lparr>Ctx = ctx, Method = method, URL = url, Header = [], Body = body\<rparr>;
                    req = (case reqBody of
                             None \<Rightarrow> req0
                           | Some r \<Rightarrow>
                               req0\<lparr>Header :=
                                 Header_Set (Header req0) ''Content-Type'' ''application/json''\<rparr>)
                in case client v req of
                     Inl err \<Rightarrow> ((Some (LibraryError err), out), [req])
                   | Inr rsp \<Rightarrow>
                       (case ReadAll rsp of
                          Inl err \<Rightarrow> ((Some (LibraryError err), out), [req])
                        | Inr rspBody \<Rightarrow>
                            if StatusCode rsp = 200
                            then (unmarshal rspBody out, [req])
                            else ((doError L rspBody, out), [req])))))"

text \<open>\<^verbatim>\<open>json.Unmarshal(rspBody, &status)\<close> for a \<^verbatim>\<open>CheckResult\<close>, as \<open>doJSON\<close> takes it.\<close>

definition unmarshal_CheckResult ::
  "('u, 'c) stdlib \<Rightarrow> string \<Rightarrow> CheckResult \<Rightarrow> error option \<times> CheckResult" where
  "unmarshal_CheckResult L data target =
     (case json_Unmarshal_CheckResult L data target of
        (None, r) \<Rightarrow> (None, r)
      | (Some err, r) \<Rightarrow> (Some (LibraryError err), r))"

text \<open>
  \<^verbatim>\<open>Check(ctx, vat)\<close>: the error or the result, and the requests handed to the
  transport.
\<close>

definition Check ::
  "('u, 'c) stdlib \<Rightarrow> ('u, 'c) Validator \<Rightarrow> 'c \<Rightarrow> string \<Rightarrow>
   (error + CheckResult) \<times> 'c request list" where
  "Check L v ctx vat =
     (if length vat < 2 then (Inl (Errorf (''invalid VAT provided '' @ vat)), [])
      else
        (let reqBody = \<lparr>req_CountryCode = strings_ToUpper L (take 2 vat),
                         req_VatNumber = drop 2 vat\<rparr>
         in case doJSON L v ctx ''POST'' ViesCheckVatPath
                   (json_Marshal_checkRequest L) (Some reqBody)
                   (unmarshal_CheckResult L) CheckResult_zero of
              ((Some err, status), sent) \<Rightarrow> (Inl err, sent)
            | ((None, status), sent) \<Rightarrow>
                (Inr (status\<lparr>Vat := CountryCode status @ VatNumber status\<rparr>), sent)))"

text \<open>\<^verbatim>\<open>Valid(ctx, vat)\<close>: the boolean and the error, and the requests handed to the transport.\<close>

definition Validator_Valid ::
  "('u, 'c) stdlib \<Rightarrow> ('u, 'c) Validator \<Rightarrow> 'c \<Rightarrow> string \<Rightarrow>
   (bool \<times> error option) \<times> 'c request list" where
  "Validator_Valid L v ctx vat =
     (case Check L v ctx vat of
        (Inl err, sent) \<Rightarrow> ((False, Some err), sent)
      | (Inr result, sent) \<Rightarrow> ((Valid result, None), sent))"

section \<open>A test double of the standard library\<close>

text \<open>
  The package's tests run the Validator against a stubbed transport with fixed
  responses. The same fixtures give a concrete library and concrete transports, on
  which the definitions above evaluate. The stub agrees with Go's library on the
  inputs the examples below use; it stands for nothing else.
\<close>

text \<open>
  A parsed URL of the stub is its scheme and the rest of its text. \<open>stub_Parse\<close>
  knows three strings: the two absolute endpoints of the tests and the relative
  reference \<^verbatim>\<open>api\<close>, which \<^verbatim>\<open>url.Parse\<close> accepts as a URL with an empty scheme
  and the path \<^verbatim>\<open>api\<close>; it rejects every other string, the tests' malformed
  endpoint \<^verbatim>\<open>http://[::1\<close> among them. As in Go, a URL is absolute when its scheme
  is not empty.
\<close>

datatype stub_url = StubURL string string

definition stub_Parse :: "string \<Rightarrow> string + stub_url" where
  "stub_Parse s =
     (if s = ''https://example.com/api/'' then Inr (StubURL ''https'' ''//example.com/api/'')
      else if s = ViesEndpointUrl
      then Inr (StubURL ''https'' ''//ec.europa.eu/taxation_customs/vies/rest-api/'')
      else if s = ''api'' then Inr (StubURL [] ''api'')
      else Inl (''parse '' @ [dq] @ s @ [dq] @ '': rejected''))"

fun stub_IsAbs :: "stub_url \<Rightarrow> bool" where
  "stub_IsAbs (StubURL scheme rest) = (scheme \<noteq> [])"

fun stub_JoinPath :: "stub_url \<Rightarrow> string \<Rightarrow> string" where
  "stub_JoinPath (StubURL scheme rest) path =
     (if scheme = [] then rest @ ''/'' @ path else scheme @ '':'' @ rest @ path)"

text \<open>
  Three texts outside ASCII, in UTF-8: the letter e with acute accent (U+00E9), its
  capital (U+00C9), and the word AVAILABLE written with the capital I with dot above
  (U+0130). Go's \<^verbatim>\<open>strings.ToUpper\<close> maps the first to the second and
  \<^verbatim>\<open>strings.ToLower\<close> maps the third to \<^verbatim>\<open>available\<close>; \<^verbatim>\<open>json.Marshal\<close> writes
  such characters as they are, and \<^verbatim>\<open>json.Unmarshal\<close> reads them as they are. The
  stub does the same on these texts and refuses every other text outside the plain
  case.
\<close>

definition e_acute :: string where
  "e_acute = [CHR 0xC3, CHR 0xA9]"

definition E_acute :: string where
  "E_acute = [CHR 0xC3, CHR 0x89]"

definition AVAILABLE_dotted :: string where
  "AVAILABLE_dotted = ''AVA'' @ [CHR 0xC4, CHR 0xB0] @ ''LABLE''"

definition stub_ToUpper :: "string \<Rightarrow> string" where
  "stub_ToUpper s =
     (if s = e_acute then E_acute else if s = e_acute @ ''a'' then E_acute @ ''A'' else s)"

definition stub_ToLower :: "string \<Rightarrow> string" where
  "stub_ToLower s = (if s = AVAILABLE_dotted then ''available'' else s)"

definition stub_Marshal_string :: "string \<Rightarrow> string + string" where
  "stub_Marshal_string s =
     (if s = E_acute \<or> s = E_acute @ ''A'' then Inr ([dq] @ s @ [dq]) else Inl ''not plain'')"

definition stub_Unmarshal_string :: "string \<Rightarrow> string + string" where
  "stub_Unmarshal_string data =
     (if data = [dq] @ AVAILABLE_dotted @ [dq] then Inr AVAILABLE_dotted
      else Inl ''not a plain string'')"

definition body_Acme :: string where
  \<open>body_Acme = ''{"countryCode":"EE","vatNumber":"123","valid":true,"name":"Acme"}''\<close>

definition body_err_msg :: string where
  \<open>body_err_msg = ''{"errorWrappers":[{"error":"err","message":"msg"}]}''\<close>

definition body_two_errors :: string where
  \<open>body_two_errors =
     ''{"errorWrappers":[{"error":"e1","message":"m1"},{"error":"e2","message":"m2"}]}''\<close>

definition stub_Unmarshal_CheckResult ::
  "string \<Rightarrow> CheckResult \<Rightarrow> string option \<times> CheckResult" where
  "stub_Unmarshal_CheckResult data target =
     (if data = body_Acme
      then (None, target\<lparr>CountryCode := ''EE'', VatNumber := ''123'', Valid := True,
                          Name := ''Acme''\<rparr>)
      else (Some ''invalid character'', target))"

definition stub_Unmarshal_statusErrorResponse :: "string \<Rightarrow> string + statusErrorResponse" where
  "stub_Unmarshal_statusErrorResponse data =
     (if data = body_err_msg
      then Inr \<lparr>ActionSucceed = False,
                ErrorWrappers = [\<lparr>wrapper_Error = ''err'', wrapper_Message = ''msg''\<rparr>]\<rparr>
      else if data = body_two_errors
      then Inr \<lparr>ActionSucceed = False,
                ErrorWrappers = [\<lparr>wrapper_Error = ''e1'', wrapper_Message = ''m1''\<rparr>,
                                 \<lparr>wrapper_Error = ''e2'', wrapper_Message = ''m2''\<rparr>]\<rparr>
      else if data = ''{}'' then Inr \<lparr>ActionSucceed = False, ErrorWrappers = []\<rparr>
      else Inl ''invalid character'')"

definition stub :: "(stub_url, unit) stdlib" where
  "stub =
     \<lparr>unicode_ToUpper = stub_ToUpper,
      unicode_ToLower = stub_ToLower,
      strconv_Quote = (\<lambda>s. [dq] @ s @ [dq]),
      url_Parse = stub_Parse,
      url_IsAbs = stub_IsAbs,
      url_JoinPath = stub_JoinPath,
      http_NewRequest_check = (\<lambda>ctx method url. None),
      http_DefaultClient = (\<lambda>req. Inl ''no network''),
      json_Marshal_string_esc = stub_Marshal_string,
      json_Unmarshal_string_gen = stub_Unmarshal_string,
      json_Unmarshal_CheckResult = stub_Unmarshal_CheckResult,
      json_Unmarshal_statusErrorResponse = stub_Unmarshal_statusErrorResponse\<rparr>"

text \<open>A transport that answers every request with the given status and body.\<close>

definition answering :: "int \<Rightarrow> string \<Rightarrow> unit request \<Rightarrow> string + response" where
  "answering code body req = Inr \<lparr>StatusCode = code, ReadAll = Inr body\<rparr>"

definition stub_Validator :: "(unit request \<Rightarrow> string + response) \<Rightarrow> (stub_url, unit) Validator" where
  "stub_Validator c = \<lparr>endpoint = StubURL ''https'' ''//example.com/api/'', client = c\<rparr>"

text \<open>The request \<open>Check\<close> builds for the input \<^verbatim>\<open>ee123\<close> on the stub.\<close>

definition stub_request :: "unit request" where
  \<open>stub_request =
     \<lparr>Ctx = (), Method = ''POST'', URL = ''https://example.com/api/check-vat-number'',
      Header = [(''Content-Type'', ''application/json'')],
      Body = Some ''{"countryCode":"EE","vatNumber":"123"}''\<rparr>\<close>

definition stub_EE123 :: checkRequest where
  "stub_EE123 = \<lparr>req_CountryCode = ''EE'', req_VatNumber = ''123''\<rparr>"

text \<open>\<open>doJSON\<close> as \<open>Check\<close> calls it, on the stub with a given transport and request body.\<close>

definition stub_doJSON ::
  "(unit request \<Rightarrow> string + response) \<Rightarrow> checkRequest \<Rightarrow>
   (error option \<times> CheckResult) \<times> unit request list" where
  "stub_doJSON c r =
     doJSON stub (stub_Validator c) () ''POST'' ViesCheckVatPath
       (json_Marshal_checkRequest stub) (Some r) (unmarshal_CheckResult stub) CheckResult_zero"

section \<open>Notions of the specification\<close>

text \<open>The closed set of the three \<open>Availability\<close> values.\<close>

definition is_canonical :: "Availability \<Rightarrow> bool" where
  "is_canonical a \<longleftrightarrow>
     a = ''available'' \<or> a = ''unavailable'' \<or> a = ''monitoring disabled''"

text \<open>
  Two bytes are the same up to case when they are equal or are the upper-case and the
  lower-case form of one ASCII letter; two texts match case-insensitively when they
  are the same up to case byte by byte.
\<close>

definition same_letter :: "char \<Rightarrow> char \<Rightarrow> bool" where
  "same_letter c d \<longleftrightarrow>
     c = d \<or>
     (65 \<le> (of_char c :: nat) \<and> (of_char c :: nat) \<le> 90 \<and> (of_char d :: nat) = of_char c + 32) \<or>
     (65 \<le> (of_char d :: nat) \<and> (of_char d :: nat) \<le> 90 \<and> (of_char c :: nat) = of_char d + 32)"

definition equal_ignoring_case :: "string \<Rightarrow> string \<Rightarrow> bool" where
  "equal_ignoring_case s t \<longleftrightarrow> list_all2 same_letter s t"

text \<open>
  The characters of a text in UTF-8: a byte from \<open>0x80\<close> to \<open>0xBF\<close> continues the
  character the bytes before it began, every other byte begins one. \<open>char_count\<close> is
  the number of characters, \<open>char_take n\<close> the first \<open>n\<close> characters and
  \<open>char_drop n\<close> what follows them. On ASCII text they are \<open>length\<close>, \<open>take\<close> and
  \<open>drop\<close>.
\<close>

definition is_cont :: "char \<Rightarrow> bool" where
  "is_cont c \<longleftrightarrow> 128 \<le> (of_char c :: nat) \<and> (of_char c :: nat) < 192"

definition char_count :: "string \<Rightarrow> nat" where
  "char_count s = length (filter (\<lambda>c. \<not> is_cont c) s)"

fun char_take :: "nat \<Rightarrow> string \<Rightarrow> string" where
  "char_take n [] = []"
| "char_take n (c # s) =
     (if is_cont c then c # char_take n s
      else (case n of 0 \<Rightarrow> [] | Suc m \<Rightarrow> c # char_take m s))"

fun char_drop :: "nat \<Rightarrow> string \<Rightarrow> string" where
  "char_drop n [] = []"
| "char_drop n (c # s) =
     (if is_cont c then char_drop n s
      else (case n of 0 \<Rightarrow> c # s | Suc m \<Rightarrow> char_drop m s))"

text \<open>
  The request body the specification describes for \<open>Check\<close>: the country code is the
  upper-cased prefix of two characters, the VAT number the characters after it.
  \<open>None\<close> when it does not marshal.
\<close>

definition spec_request_body :: "('u, 'c) stdlib \<Rightarrow> string \<Rightarrow> string option" where
  "spec_request_body L vat =
     (case json_Marshal_checkRequest L
             \<lparr>req_CountryCode = strings_ToUpper L (char_take 2 vat),
              req_VatNumber = char_drop 2 vat\<rparr> of
        Inl err \<Rightarrow> None
      | Inr bs \<Rightarrow> Some bs)"

text \<open>
  An endpoint string parses as an absolute URL when \<^verbatim>\<open>url.Parse\<close> accepts it and
  the URL it gives has a scheme (\<^verbatim>\<open>IsAbs\<close>).
\<close>

definition parses_absolute :: "('u, 'c) stdlib \<Rightarrow> string \<Rightarrow> bool" where
  "parses_absolute L s = (case url_Parse L s of Inl err \<Rightarrow> False | Inr u \<Rightarrow> url_IsAbs L u)"

section \<open>Properties\<close>

subsection \<open>Evaluation on the stub\<close>

lemmas stub_simps =
  stub_def stub_Validator_def answering_def stub_request_def stub_EE123_def stub_doJSON_def
  stub_Parse_def json_Marshal_checkRequest_def json_Marshal_string_def json_plain_def
  stub_Unmarshal_CheckResult_def
  stub_Unmarshal_statusErrorResponse_def body_Acme_def body_err_msg_def body_two_errors_def
  ViesCheckVatPath_def ViesEndpointUrl_def CheckResult_zero_def unmarshal_CheckResult_def
  Header_Set_def dq_def

lemma stub_doJSON_sent: "snd (stub_doJSON (answering code body) stub_EE123) = [stub_request]"
  by (simp add: doJSON_def stub_simps Let_def)

lemma stub_Check_ee123:
  "Check stub (stub_Validator (answering 200 body_Acme)) () ''ee123'' =
     (Inr \<lparr>CountryCode = ''EE'', VatNumber = ''123'', Vat = ''EE123'', Valid = True,
           Name = ''Acme''\<rparr>, [stub_request])"
  by code_simp

lemma stub_Check_E:
  "Check stub (stub_Validator (answering 200 body_Acme)) () ''E'' =
     (Inl (Errorf ''invalid VAT provided E''), [])"
  by (simp add: Check_def)

subsection \<open>The shared execution path\<close>

lemma doError_not_nil: "doError L body \<noteq> None"
  by (simp add: doError_def Let_def split: sum.split)

text \<open>
  Every run of \<open>doJSON\<close> either stops before the transport is reached, with an
  error and \<open>out\<close> untouched, or hands exactly one request to the transport and
  finishes according to what the transport answers.
\<close>

lemma doJSON_cases:
  "doJSON L v ctx method path marshal reqBody unmarshal out = ((err, out'), sent) \<Longrightarrow>
   (sent = [] \<and> err \<noteq> None \<and> out' = out) \<or>
   (\<exists>req. sent = [req] \<and>
      (case client v req of
         Inl e \<Rightarrow> err = Some (LibraryError e) \<and> out' = out
       | Inr rsp \<Rightarrow>
           (case ReadAll rsp of
              Inl e \<Rightarrow> err = Some (LibraryError e) \<and> out' = out
            | Inr rspBody \<Rightarrow>
                if StatusCode rsp = 200 then (err, out') = unmarshal rspBody out
                else err = doError L rspBody \<and> out' = out)))"
  unfolding doJSON_def Let_def
  by (auto split: option.splits sum.splits if_splits)

text \<open>
  C1. When the transport answers the request of \<open>doJSON\<close> with a status other than
  200 and a readable body, \<open>doJSON\<close> returns what \<open>doError\<close> makes of the body and
  leaves \<open>out\<close> as it was, and \<open>doError\<close> falls in exactly one of three classes: the
  envelope does not decode, and the error is the decoder's own; the envelope decodes
  with no entry, and the error is the one with the text
  \<^verbatim>\<open>invalid response structure\<close>; the envelope decodes with at least one entry,
  and the error is the ValidationError of the first entry's code and message, the
  other entries playing no part, rendered as code, colon, space, message.
\<close>

theorem doError_classification:
  assumes "snd (doJSON L v ctx method path marshal reqBody unmarshal out) = [req]"
    and "client v req = Inr rsp"
    and "StatusCode rsp \<noteq> 200"
    and "ReadAll rsp = Inr body"
  shows "fst (doJSON L v ctx method path marshal reqBody unmarshal out) = (doError L body, out) \<and>
    (case json_Unmarshal_statusErrorResponse L body of
       Inl d \<Rightarrow> doError L body = Some (LibraryError d)
     | Inr e \<Rightarrow>
         (case ErrorWrappers e of
            [] \<Rightarrow> doError L body = Some (Errorf ''invalid response structure'')
          | w # ws \<Rightarrow>
              doError L body = Some (ValidationError (wrapper_Error w) (wrapper_Message w)) \<and>
              Error (ValidationError (wrapper_Error w) (wrapper_Message w))
                = wrapper_Error w @ '': '' @ wrapper_Message w))"
proof -
  obtain err out' sent
    where d: "doJSON L v ctx method path marshal reqBody unmarshal out = ((err, out'), sent)"
    by (metis surj_pair)
  with assms(1) have s: "sent = [req]" by simp
  from doJSON_cases [OF d] s assms(2-4) have "err = doError L body \<and> out' = out"
    by (auto simp: doError_not_nil)
  with d have 1: "fst (doJSON L v ctx method path marshal reqBody unmarshal out) = (doError L body, out)"
    by simp
  have 2: "(case json_Unmarshal_statusErrorResponse L body of
       Inl d \<Rightarrow> doError L body = Some (LibraryError d)
     | Inr e \<Rightarrow>
         (case ErrorWrappers e of
            [] \<Rightarrow> doError L body = Some (Errorf ''invalid response structure'')
          | w # ws \<Rightarrow>
              doError L body = Some (ValidationError (wrapper_Error w) (wrapper_Message w)) \<and>
              Error (ValidationError (wrapper_Error w) (wrapper_Message w))
                = wrapper_Error w @ '': '' @ wrapper_Message w))"
    by (simp add: doError_def Let_def split: sum.split list.split)
  from 1 2 show ?thesis by simp
qed

theorem doError_classification_witness:
  "fst (stub_doJSON (answering 400 body_two_errors) stub_EE123)
     = (Some (ValidationError ''e1'' ''m1''), CheckResult_zero) \<and>
   Error (ValidationError ''e1'' ''m1'') = ''e1: m1'' \<and>
   fst (stub_doJSON (answering 500 ''!'') stub_EE123)
     = (Some (LibraryError ''invalid character''), CheckResult_zero) \<and>
   fst (stub_doJSON (answering 404 ''{}'') stub_EE123)
     = (Some (Errorf ''invalid response structure''), CheckResult_zero)"
proof -
  have a: "fst (stub_doJSON (answering 400 body_two_errors) stub_EE123)
     = (Some (ValidationError ''e1'' ''m1''), CheckResult_zero)"
    using doError_classification [of stub "stub_Validator (answering 400 body_two_errors)" "()"
        "''POST''" ViesCheckVatPath "json_Marshal_checkRequest stub" "Some stub_EE123"
        "unmarshal_CheckResult stub" CheckResult_zero stub_request
        "\<lparr>StatusCode = 400, ReadAll = Inr body_two_errors\<rparr>" body_two_errors]
      stub_doJSON_sent [of 400 body_two_errors]
    by (simp add: stub_doJSON_def stub_Validator_def answering_def stub_def
        stub_Unmarshal_statusErrorResponse_def body_two_errors_def body_err_msg_def)
  have b: "fst (stub_doJSON (answering 500 ''!'') stub_EE123)
     = (Some (LibraryError ''invalid character''), CheckResult_zero)"
    using doError_classification [of stub "stub_Validator (answering 500 ''!'')" "()"
        "''POST''" ViesCheckVatPath "json_Marshal_checkRequest stub" "Some stub_EE123"
        "unmarshal_CheckResult stub" CheckResult_zero stub_request
        "\<lparr>StatusCode = 500, ReadAll = Inr ''!''\<rparr>" "''!''"]
      stub_doJSON_sent [of 500 "''!''"]
    by (simp add: stub_doJSON_def stub_Validator_def answering_def stub_def
        stub_Unmarshal_statusErrorResponse_def body_two_errors_def body_err_msg_def)
  have c: "fst (stub_doJSON (answering 404 ''{}'') stub_EE123)
     = (Some (Errorf ''invalid response structure''), CheckResult_zero)"
    using doError_classification [of stub "stub_Validator (answering 404 ''{}'')" "()"
        "''POST''" ViesCheckVatPath "json_Marshal_checkRequest stub" "Some stub_EE123"
        "unmarshal_CheckResult stub" CheckResult_zero stub_request
        "\<lparr>StatusCode = 404, ReadAll = Inr ''{}''\<rparr>" "''{}''"]
      stub_doJSON_sent [of 404 "''{}''"]
    by (simp add: stub_doJSON_def stub_Validator_def answering_def stub_def
        stub_Unmarshal_statusErrorResponse_def body_two_errors_def body_err_msg_def)
  from a b c show ?thesis by simp
qed

text \<open>
  C10. \<open>doError\<close> returns an error for every body. Hence, unless the transport
  answered a request of this call with status 200, \<open>doJSON\<close> returns an error and
  the value \<open>out\<close> points to is the one it held before the call.
\<close>

theorem doJSON_non200_fails:
  assumes "\<forall>req rsp. req \<in> set (snd (doJSON L v ctx method path marshal reqBody unmarshal out))
              \<and> client v req = Inr rsp \<longrightarrow> StatusCode rsp \<noteq> 200"
  shows "doError L body \<noteq> None \<and>
         fst (fst (doJSON L v ctx method path marshal reqBody unmarshal out)) \<noteq> None \<and>
         snd (fst (doJSON L v ctx method path marshal reqBody unmarshal out)) = out"
proof -
  obtain err out' sent where d: "doJSON L v ctx method path marshal reqBody unmarshal out = ((err, out'), sent)"
    by (metis surj_pair)
  from doJSON_cases [OF d] consider
      (unsent) "sent = []" "err \<noteq> None" "out' = out"
    | (sent) req where "sent = [req]"
        "case client v req of
           Inl e \<Rightarrow> err = Some (LibraryError e) \<and> out' = out
         | Inr rsp \<Rightarrow>
             (case ReadAll rsp of
                Inl e \<Rightarrow> err = Some (LibraryError e) \<and> out' = out
              | Inr rspBody \<Rightarrow>
                  if StatusCode rsp = 200 then (err, out') = unmarshal rspBody out
                  else err = doError L rspBody \<and> out' = out)"
    by blast
  then have "err \<noteq> None \<and> out' = out"
  proof cases
    case unsent
    then show ?thesis by simp
  next
    case sent
    show ?thesis
    proof (cases "client v req")
      case (Inl e)
      with sent(2) show ?thesis by simp
    next
      case (Inr rsp)
      with assms d sent(1) have ne: "StatusCode rsp \<noteq> 200" by simp
      show ?thesis
      proof (cases "ReadAll rsp")
        case (Inl e)
        with sent(2) Inr show ?thesis by simp
      next
        case body: (Inr rspBody)
        with sent(2) Inr ne show ?thesis by (simp add: doError_not_nil)
      qed
    qed
  qed
  with d show ?thesis by (simp add: doError_not_nil)
qed

theorem doJSON_non200_fails_witness:
  "doError stub body_err_msg = Some (ValidationError ''err'' ''msg'') \<and>
   fst (fst (stub_doJSON (answering 400 body_err_msg) stub_EE123)) \<noteq> None \<and>
   snd (fst (stub_doJSON (answering 400 body_err_msg) stub_EE123)) = CheckResult_zero"
proof -
  have h: "\<forall>req rsp. req \<in> set (snd (stub_doJSON (answering 400 body_err_msg) stub_EE123))
              \<and> client (stub_Validator (answering 400 body_err_msg)) req = Inr rsp
              \<longrightarrow> StatusCode rsp \<noteq> 200"
    by (auto simp: stub_Validator_def answering_def)
  have e: "doError stub body_err_msg = Some (ValidationError ''err'' ''msg'')"
    by (simp add: doError_def stub_def stub_Unmarshal_statusErrorResponse_def)
  from doJSON_non200_fails [OF h [unfolded stub_doJSON_def], of body_err_msg] e
  show ?thesis by (simp add: stub_doJSON_def)
qed

subsection \<open>Check and Valid\<close>

text \<open>
  C2, as the specification states it, fails: \<^verbatim>\<open>len(vat)\<close> counts bytes, and the one
  character U+00E9 is two bytes in UTF-8. For this input of fewer than two
  characters \<open>Check\<close> does not fail and the transport receives a request.
\<close>

theorem Check_one_character_counterexample:
  "\<not> (char_count e_acute < 2 \<longrightarrow>
        isl (fst (Check stub (stub_Validator (answering 200 body_Acme)) () e_acute)) \<and>
        snd (Check stub (stub_Validator (answering 200 body_Acme)) () e_acute) = [])"
  by code_simp

text \<open>
  C2, amended. On an input of fewer than two bytes (\<^verbatim>\<open>len(vat) < 2\<close>), \<open>Check\<close>
  returns the error whose text is \<^verbatim>\<open>invalid VAT provided\<close> followed by the input,
  and the list of requests handed to the transport is empty.
\<close>

theorem Check_short_input:
  "length vat < 2 \<Longrightarrow> Check L v ctx vat = (Inl (Errorf (''invalid VAT provided '' @ vat)), [])"
  by (simp add: Check_def)

theorem Check_short_input_witness:
  "length ''E'' < 2 \<and>
   Check stub (stub_Validator (answering 200 body_Acme)) () ''E''
     = (Inl (Errorf ''invalid VAT provided E''), []) \<and>
   Error (Errorf ''invalid VAT provided E'') = ''invalid VAT provided E''"
  using Check_short_input [of "''E''" stub "stub_Validator (answering 200 body_Acme)" "()"]
  by simp

text \<open>
  C8. When \<open>Check\<close> fails, \<open>Valid\<close> returns \<open>False\<close> with the same error; when
  \<open>Check\<close> succeeds, \<open>Valid\<close> returns the result's \<open>Valid\<close> flag with no error;
  in both cases the transport has seen the same requests. \<open>Valid\<close> never returns
  \<open>True\<close> together with an error.
\<close>

theorem Valid_propagates:
  "(Check L v ctx vat = (Inl e, sent) \<longrightarrow> Validator_Valid L v ctx vat = ((False, Some e), sent)) \<and>
   (Check L v ctx vat = (Inr r, sent) \<longrightarrow> Validator_Valid L v ctx vat = ((Valid r, None), sent)) \<and>
   \<not> (fst (fst (Validator_Valid L v ctx vat)) \<and> snd (fst (Validator_Valid L v ctx vat)) \<noteq> None)"
  by (auto simp: Validator_Valid_def split: prod.splits sum.splits)


theorem Valid_propagates_witness:
  "Validator_Valid stub (stub_Validator (answering 200 body_Acme)) () ''E''
     = ((False, Some (Errorf ''invalid VAT provided E'')), []) \<and>
   Validator_Valid stub (stub_Validator (answering 200 body_Acme)) () ''ee123''
     = ((True, None), [stub_request])"
  using Valid_propagates [of stub "stub_Validator (answering 200 body_Acme)" "()" "''E''"
      "Errorf ''invalid VAT provided E''" "[]"]
    Valid_propagates [of stub "stub_Validator (answering 200 body_Acme)" "()" "''ee123''" _
      "[stub_request]"
      "\<lparr>CountryCode = ''EE'', VatNumber = ''123'', Vat = ''EE123'', Valid = True,
           Name = ''Acme''\<rparr>"]
    stub_Check_E stub_Check_ee123
  by simp

subsection \<open>Upper and lower case of ASCII bytes\<close>

lemma of_char_lt_256: "(of_char c :: nat) < 256"
  by (cases c) simp

lemma of_char_lower_byte:
  "(of_char (lower_byte c) :: nat) =
     (if 65 \<le> (of_char c :: nat) \<and> (of_char c :: nat) \<le> 90 then of_char c + 32 else of_char c)"
  by (simp add: lower_byte_def)

lemma of_char_upper_byte:
  "(of_char (upper_byte c) :: nat) =
     (if 97 \<le> (of_char c :: nat) \<and> (of_char c :: nat) \<le> 122 then of_char c - 32 else of_char c)"
  using of_char_lt_256 [of c] by (auto simp: upper_byte_def)

lemma upper_lower_byte: "upper_byte (lower_byte c) = upper_byte c"
proof -
  have "(of_char (upper_byte (lower_byte c)) :: nat) = of_char (upper_byte c)"
    by (simp add: of_char_upper_byte of_char_lower_byte)
  then show ?thesis by simp
qed

lemma upper_upper_byte: "upper_byte (upper_byte c) = upper_byte c"
proof -
  have "(of_char (upper_byte (upper_byte c)) :: nat) = of_char (upper_byte c)"
    by (auto simp: of_char_upper_byte)
  then show ?thesis by simp
qed

lemma is_ascii_lower_byte: "is_ascii (lower_byte c) = is_ascii c"
  by (simp add: is_ascii_def of_char_lower_byte)

lemma is_ascii_upper_byte: "is_ascii (upper_byte c) = is_ascii c"
  by (auto simp: is_ascii_def of_char_upper_byte)

lemma ToUpper_ascii:
  "list_all is_ascii s \<Longrightarrow> strings_ToUpper L s = map upper_byte s"
  by (simp add: strings_ToUpper_def)

lemma ToUpper_ignores_case:
  "list_all is_ascii s \<Longrightarrow>
   strings_ToUpper L (map lower_byte s) = strings_ToUpper L s \<and>
   strings_ToUpper L (map upper_byte s) = strings_ToUpper L s"
  by (simp add: strings_ToUpper_def list_all_iff is_ascii_lower_byte is_ascii_upper_byte
      upper_lower_byte upper_upper_byte)

subsection \<open>Characters and bytes\<close>

lemma not_cont_ascii: "is_ascii c \<Longrightarrow> \<not> is_cont c"
  by (simp add: is_ascii_def is_cont_def)

lemma char_count_ascii: "list_all is_ascii s \<Longrightarrow> char_count s = length s"
  by (induction s) (simp_all add: char_count_def not_cont_ascii)

lemma char_take_ascii: "list_all is_ascii s \<Longrightarrow> char_take n s = take n s"
  by (induction s arbitrary: n) (simp_all add: not_cont_ascii split: nat.split)

lemma char_drop_ascii: "list_all is_ascii s \<Longrightarrow> char_drop n s = drop n s"
  by (induction s arbitrary: n) (simp_all add: not_cont_ascii split: nat.split)

subsection \<open>The request and the result of Check\<close>

lemma json_plain_ascii: "json_plain c \<Longrightarrow> is_ascii c"
  by (simp add: json_plain_def is_ascii_def)

lemma char_eq_of_char: "(c = d) = ((of_char c :: nat) = of_char d)"
  by simp

lemma json_plain_upper_byte: "json_plain c \<Longrightarrow> json_plain (upper_byte c)"
  unfolding json_plain_def char_eq_of_char [of "upper_byte c"] char_eq_of_char [of c]
    of_char_upper_byte
  by (auto split: if_splits)

lemma list_all_take_drop:
  "list_all P xs \<Longrightarrow> list_all P (take n xs) \<and> list_all P (drop n xs)"
  by (metis append_take_drop_id list_all_append)

lemma json_Marshal_checkRequest_plain:
  \<open>list_all json_plain cc \<Longrightarrow> list_all json_plain vn \<Longrightarrow>
   json_Marshal_checkRequest L \<lparr>req_CountryCode = cc, req_VatNumber = vn\<rparr>
     = Inr (''{"countryCode":"'' @ cc @ ''","vatNumber":"'' @ vn @ ''"}'')\<close>
  by (simp add: json_Marshal_checkRequest_def json_Marshal_string_def dq_def)

lemma Check_sent:
  "2 \<le> length vat \<Longrightarrow>
   snd (Check L v ctx vat) =
     (case json_Marshal_checkRequest L
             \<lparr>req_CountryCode = strings_ToUpper L (take 2 vat), req_VatNumber = drop 2 vat\<rparr> of
        Inl err \<Rightarrow> []
      | Inr bs \<Rightarrow>
          (case http_NewRequest_check L ctx ''POST'' (url_JoinPath L (endpoint v) ViesCheckVatPath) of
             Some err \<Rightarrow> []
           | None \<Rightarrow>
               [\<lparr>Ctx = ctx, Method = ''POST'',
                 URL = url_JoinPath L (endpoint v) ViesCheckVatPath,
                 Header = [(''Content-Type'', ''application/json'')],
                 Body = Some bs\<rparr>]))"
  by (simp add: Check_def doJSON_def Let_def Header_Set_def
      split: sum.split option.split prod.split if_split)

text \<open>
  C3, as the specification states it, fails: \<open>Check\<close> cuts the input after two
  bytes, not after two characters. For the input made of U+00E9 and \<^verbatim>\<open>a123\<close> the
  specification asks for the country code of the first two characters, upper-cased,
  and the VAT number \<^verbatim>\<open>123\<close>; the body sent carries the country code U+00C9 alone
  and the VAT number \<^verbatim>\<open>a123\<close>.
\<close>

theorem Check_character_prefix_counterexample:
  "\<not> (2 \<le> char_count (e_acute @ ''a123'') \<longrightarrow>
        map Body (snd (Check stub (stub_Validator (answering 200 body_Acme)) () (e_acute @ ''a123'')))
          = [spec_request_body stub (e_acute @ ''a123'')])"
  by code_simp

text \<open>
  C3, amended. On an input of at least two bytes the transport receives nothing but
  the one POST request whose body is the JSON object with \<open>countryCode\<close> the encoding
  of \<^verbatim>\<open>strings.ToUpper\<close> of the first two bytes and \<open>vatNumber\<close> the encoding of
  the remaining bytes (or no request, when encoding or building the request fails);
  the two parts make up the input. When every byte of the input is plain, that is
  printable ASCII that JSON writes as it is, and the request can be built, the body
  is the text with the first two bytes upper-cased byte by byte as \<open>countryCode\<close>
  and the rest of the input, unchanged, as \<open>vatNumber\<close>. On an ASCII prefix the
  upper-casing gives the same code whatever the case of the prefix.
\<close>

theorem Check_request_body:
  assumes "2 \<le> length vat"
  shows \<open>snd (Check L v ctx vat) =
     (case json_Marshal_string L (strings_ToUpper L (take 2 vat)) of
        Inl err \<Rightarrow> []
      | Inr cc \<Rightarrow>
          (case json_Marshal_string L (drop 2 vat) of
             Inl err \<Rightarrow> []
           | Inr vn \<Rightarrow>
               (case http_NewRequest_check L ctx ''POST''
                       (url_JoinPath L (endpoint v) ViesCheckVatPath) of
                  Some err \<Rightarrow> []
                | None \<Rightarrow>
                    [\<lparr>Ctx = ctx, Method = ''POST'',
                      URL = url_JoinPath L (endpoint v) ViesCheckVatPath,
                      Header = [(''Content-Type'', ''application/json'')],
                      Body = Some (''{"countryCode":'' @ cc @ '',"vatNumber":'' @ vn @ ''}'')\<rparr>])))
    \<and> length (take 2 vat) = 2 \<and> take 2 vat @ drop 2 vat = vat
    \<and> (list_all json_plain vat \<longrightarrow>
         http_NewRequest_check L ctx ''POST'' (url_JoinPath L (endpoint v) ViesCheckVatPath) = None \<longrightarrow>
         snd (Check L v ctx vat) =
           [\<lparr>Ctx = ctx, Method = ''POST'',
             URL = url_JoinPath L (endpoint v) ViesCheckVatPath,
             Header = [(''Content-Type'', ''application/json'')],
             Body = Some (''{"countryCode":"'' @ map upper_byte (take 2 vat)
                          @ ''","vatNumber":"'' @ drop 2 vat @ ''"}'')\<rparr>])
    \<and> (list_all is_ascii (take 2 vat) \<longrightarrow>
         strings_ToUpper L (take 2 vat) = map upper_byte (take 2 vat) \<and>
         strings_ToUpper L (map lower_byte (take 2 vat)) = strings_ToUpper L (take 2 vat) \<and>
         strings_ToUpper L (map upper_byte (take 2 vat)) = strings_ToUpper L (take 2 vat))\<close>
proof -
  have sent: \<open>snd (Check L v ctx vat) =
     (case json_Marshal_string L (strings_ToUpper L (take 2 vat)) of
        Inl err \<Rightarrow> []
      | Inr cc \<Rightarrow>
          (case json_Marshal_string L (drop 2 vat) of
             Inl err \<Rightarrow> []
           | Inr vn \<Rightarrow>
               (case http_NewRequest_check L ctx ''POST''
                       (url_JoinPath L (endpoint v) ViesCheckVatPath) of
                  Some err \<Rightarrow> []
                | None \<Rightarrow>
                    [\<lparr>Ctx = ctx, Method = ''POST'',
                      URL = url_JoinPath L (endpoint v) ViesCheckVatPath,
                      Header = [(''Content-Type'', ''application/json'')],
                      Body = Some (''{"countryCode":'' @ cc @ '',"vatNumber":'' @ vn @ ''}'')\<rparr>])))\<close>
    unfolding Check_sent [OF assms]
    by (simp add: json_Marshal_checkRequest_def split: sum.split option.split)
  from assms have len: "length (take 2 vat) = 2" by simp
  have app: "take 2 vat @ drop 2 vat = vat" by simp
  have plain: \<open>list_all json_plain vat \<longrightarrow>
         http_NewRequest_check L ctx ''POST'' (url_JoinPath L (endpoint v) ViesCheckVatPath) = None \<longrightarrow>
         snd (Check L v ctx vat) =
           [\<lparr>Ctx = ctx, Method = ''POST'',
             URL = url_JoinPath L (endpoint v) ViesCheckVatPath,
             Header = [(''Content-Type'', ''application/json'')],
             Body = Some (''{"countryCode":"'' @ map upper_byte (take 2 vat)
                          @ ''","vatNumber":"'' @ drop 2 vat @ ''"}'')\<rparr>]\<close>
  proof (intro impI)
    assume p: "list_all json_plain vat"
      and n: "http_NewRequest_check L ctx ''POST'' (url_JoinPath L (endpoint v) ViesCheckVatPath) = None"
    from p have pt: "list_all json_plain (take 2 vat)" and pd: "list_all json_plain (drop 2 vat)"
      using list_all_take_drop [of json_plain vat 2] by simp_all
    from pt have at: "list_all is_ascii (take 2 vat)"
      by (simp add: list_all_iff json_plain_ascii)
    from pt have pu: "list_all json_plain (map upper_byte (take 2 vat))"
      by (simp add: list_all_iff json_plain_upper_byte)
    from at have u: "strings_ToUpper L (take 2 vat) = map upper_byte (take 2 vat)"
      by (rule ToUpper_ascii)
    show \<open>snd (Check L v ctx vat) =
           [\<lparr>Ctx = ctx, Method = ''POST'',
             URL = url_JoinPath L (endpoint v) ViesCheckVatPath,
             Header = [(''Content-Type'', ''application/json'')],
             Body = Some (''{"countryCode":"'' @ map upper_byte (take 2 vat)
                          @ ''","vatNumber":"'' @ drop 2 vat @ ''"}'')\<rparr>]\<close>
      unfolding Check_sent [OF assms] u json_Marshal_checkRequest_plain [OF pu pd] n
      by simp
  qed
  from sent len app plain ToUpper_ascii [of "take 2 vat" L] ToUpper_ignores_case [of "take 2 vat" L]
  show ?thesis by blast
qed

theorem Check_request_body_witness:
  \<open>snd (Check stub (stub_Validator (answering 200 body_Acme)) () ''ee123'') =
     [\<lparr>Ctx = (), Method = ''POST'', URL = ''https://example.com/api/check-vat-number'',
       Header = [(''Content-Type'', ''application/json'')],
       Body = Some ''{"countryCode":"EE","vatNumber":"123"}''\<rparr>] \<and>
   strings_ToUpper stub (take 2 ''ee123'') = ''EE'' \<and>
   strings_ToUpper stub (take 2 ''Ee123'') = ''EE'' \<and> drop 2 ''ee123'' = ''123''\<close>
proof -
  have h: "2 \<le> length ''ee123''" by simp
  have u: "map upper_byte (take 2 ''ee123'') = ''EE''" by code_simp
  have up: "strings_ToUpper stub (take 2 ''ee123'') = ''EE''"
    "strings_ToUpper stub (take 2 ''Ee123'') = ''EE''" by code_simp+
  have p: "list_all json_plain ''ee123''" by (simp add: json_plain_def)
  have url: "url_JoinPath stub (endpoint (stub_Validator (answering 200 body_Acme))) ViesCheckVatPath
      = ''https://example.com/api/check-vat-number''"
    by (simp add: stub_def stub_Validator_def ViesCheckVatPath_def)
  have n: "http_NewRequest_check stub () ''POST''
      (url_JoinPath stub (endpoint (stub_Validator (answering 200 body_Acme))) ViesCheckVatPath) = None"
    by (simp add: stub_def)
  from Check_request_body [OF h, of stub "stub_Validator (answering 200 body_Acme)" "()"] p n
  have \<open>snd (Check stub (stub_Validator (answering 200 body_Acme)) () ''ee123'') =
           [\<lparr>Ctx = (), Method = ''POST'',
             URL = url_JoinPath stub (endpoint (stub_Validator (answering 200 body_Acme)))
                     ViesCheckVatPath,
             Header = [(''Content-Type'', ''application/json'')],
             Body = Some (''{"countryCode":"'' @ map upper_byte (take 2 ''ee123'')
                          @ ''","vatNumber":"'' @ drop 2 ''ee123'' @ ''"}'')\<rparr>]\<close>
    by blast
  then have \<open>snd (Check stub (stub_Validator (answering 200 body_Acme)) () ''ee123'') =
     [\<lparr>Ctx = (), Method = ''POST'', URL = ''https://example.com/api/check-vat-number'',
       Header = [(''Content-Type'', ''application/json'')],
       Body = Some ''{"countryCode":"EE","vatNumber":"123"}''\<rparr>]\<close>
    unfolding url u by simp
  with up show ?thesis by simp
qed

lemma doJSON_sent_200:
  assumes "snd (doJSON L v ctx method path marshal reqBody unmarshal out) = [req]"
    and "client v req = Inr rsp"
    and "StatusCode rsp = 200"
    and "ReadAll rsp = Inr body"
  shows "fst (doJSON L v ctx method path marshal reqBody unmarshal out) = unmarshal body out"
proof -
  obtain err out' sent
    where d: "doJSON L v ctx method path marshal reqBody unmarshal out = ((err, out'), sent)"
    by (metis surj_pair)
  with assms(1) have s: "sent = [req]" by simp
  from doJSON_cases [OF d] s assms(2-4) have "(err, out') = unmarshal body out"
    by auto
  with d show ?thesis by simp
qed

text \<open>
  C4. When the transport answers the request of \<open>Check\<close> with status 200 and a body
  that decodes, into the zero \<open>CheckResult\<close>, to \<open>status\<close>, then \<open>Check\<close> succeeds
  and returns \<open>status\<close> with \<open>Vat\<close> replaced by the decoded country code followed
  by the decoded VAT number, the two fields themselves being kept. The input string
  plays no part in it.
\<close>

theorem Check_vat_synthesized:
  assumes "snd (Check L v ctx vat) = [req]"
    and "client v req = Inr rsp"
    and "StatusCode rsp = 200"
    and "ReadAll rsp = Inr body"
    and "unmarshal_CheckResult L body CheckResult_zero = (None, status)"
  shows "fst (Check L v ctx vat) = Inr (status\<lparr>Vat := CountryCode status @ VatNumber status\<rparr>) \<and>
    Vat (status\<lparr>Vat := CountryCode status @ VatNumber status\<rparr>)
      = CountryCode status @ VatNumber status \<and>
    CountryCode (status\<lparr>Vat := CountryCode status @ VatNumber status\<rparr>) = CountryCode status \<and>
    VatNumber (status\<lparr>Vat := CountryCode status @ VatNumber status\<rparr>) = VatNumber status"
proof -
  from assms(1) have long: "\<not> length vat < 2"
    by (auto simp: Check_def)
  define reqBody where
    "reqBody = \<lparr>req_CountryCode = strings_ToUpper L (take 2 vat), req_VatNumber = drop 2 vat\<rparr>"
  let ?d = "doJSON L v ctx ''POST'' ViesCheckVatPath (json_Marshal_checkRequest L) (Some reqBody)
       (unmarshal_CheckResult L) CheckResult_zero"
  have c: "Check L v ctx vat =
      (case ?d of
         ((Some err, status), sent) \<Rightarrow> (Inl err, sent)
       | ((None, status), sent) \<Rightarrow>
           (Inr (status\<lparr>Vat := CountryCode status @ VatNumber status\<rparr>), sent))"
    using long by (simp add: Check_def Let_def reqBody_def)
  from assms(1) have s: "snd ?d = [req]"
    unfolding c by (auto split: prod.splits option.splits)
  from doJSON_sent_200 [OF s assms(2-4)] assms(5) have f: "fst ?d = (None, status)"
    by simp
  from f have "fst (Check L v ctx vat) = Inr (status\<lparr>Vat := CountryCode status @ VatNumber status\<rparr>)"
    unfolding c by (auto split: prod.splits option.splits)
  then show ?thesis by simp
qed

theorem Check_vat_synthesized_witness:
  "fst (Check stub (stub_Validator (answering 200 body_Acme)) () ''ee123'') =
     Inr \<lparr>CountryCode = ''EE'', VatNumber = ''123'', Vat = ''EE123'', Valid = True,
           Name = ''Acme''\<rparr> \<and>
   ''EE123'' = ''EE'' @ ''123'' \<and> ''EE123'' \<noteq> ''ee123''"
proof -
  have 1: "snd (Check stub (stub_Validator (answering 200 body_Acme)) () ''ee123'') = [stub_request]"
    by (simp add: stub_Check_ee123)
  have 2: "client (stub_Validator (answering 200 body_Acme)) stub_request
      = Inr \<lparr>StatusCode = 200, ReadAll = Inr body_Acme\<rparr>"
    by (simp add: stub_Validator_def answering_def)
  have 3: "StatusCode \<lparr>StatusCode = 200, ReadAll = Inr body_Acme\<rparr> = 200" by simp
  have 4: "ReadAll \<lparr>StatusCode = 200, ReadAll = Inr body_Acme\<rparr> = Inr body_Acme" by simp
  have 5: "unmarshal_CheckResult stub body_Acme CheckResult_zero =
      (None, \<lparr>CountryCode = ''EE'', VatNumber = ''123'', Vat = [], Valid = True,
           Name = ''Acme''\<rparr>)"
    by (simp add: unmarshal_CheckResult_def stub_def stub_Unmarshal_CheckResult_def
        CheckResult_zero_def)
  from Check_vat_synthesized [OF 1 2 3 4 5] show ?thesis by simp
qed

text \<open>
  Conversely, a result of \<open>Check\<close> comes from nothing but such an answer.
\<close>

lemma Check_success_only_from_200:
  assumes "Check L v ctx vat = (Inr r, sent)"
  shows "\<exists>req rsp body status.
       sent = [req] \<and> client v req = Inr rsp \<and> StatusCode rsp = 200 \<and> ReadAll rsp = Inr body \<and>
       unmarshal_CheckResult L body CheckResult_zero = (None, status) \<and>
       r = status\<lparr>Vat := CountryCode status @ VatNumber status\<rparr>"
proof -
  from assms have long: "\<not> length vat < 2"
    by (auto simp: Check_def)
  define reqBody where
    "reqBody = \<lparr>req_CountryCode = strings_ToUpper L (take 2 vat), req_VatNumber = drop 2 vat\<rparr>"
  obtain err status sent' where d:
    "doJSON L v ctx ''POST'' ViesCheckVatPath (json_Marshal_checkRequest L) (Some reqBody)
       (unmarshal_CheckResult L) CheckResult_zero = ((err, status), sent')"
    by (metis surj_pair)
  with assms long have e: "err = None" and s: "sent' = sent"
    and r: "r = status\<lparr>Vat := CountryCode status @ VatNumber status\<rparr>"
    by (auto simp: Check_def Let_def reqBody_def split: option.splits)
  from doJSON_cases [OF d] e obtain req where q: "sent' = [req]"
    and c: "case client v req of
         Inl e \<Rightarrow> err = Some (LibraryError e) \<and> status = CheckResult_zero
       | Inr rsp \<Rightarrow>
           (case ReadAll rsp of
              Inl e \<Rightarrow> err = Some (LibraryError e) \<and> status = CheckResult_zero
            | Inr rspBody \<Rightarrow>
                if StatusCode rsp = 200
                then (err, status) = unmarshal_CheckResult L rspBody CheckResult_zero
                else err = doError L rspBody \<and> status = CheckResult_zero)"
    by blast
  from c e obtain rsp where rsp: "client v req = Inr rsp"
    by (cases "client v req") auto
  from c e rsp obtain body where body: "ReadAll rsp = Inr body"
    by (cases "ReadAll rsp") auto
  from c e rsp body have ok: "StatusCode rsp = 200"
    by (auto simp: doError_not_nil split: if_splits)
  from c e rsp body ok have u: "unmarshal_CheckResult L body CheckResult_zero = (None, status)"
    by simp
  from q s rsp body ok u r show ?thesis by blast
qed

subsection \<open>Availability\<close>

lemma lower_byte_eq_iff:
  assumes "\<not> (65 \<le> (of_char d :: nat) \<and> (of_char d :: nat) \<le> 90)"
  shows "(lower_byte c = d) = same_letter c d"
proof -
  have "(lower_byte c = d) = ((of_char (lower_byte c) :: nat) = of_char d)"
    by simp
  moreover have "(c = d) = ((of_char c :: nat) = of_char d)"
    by simp
  ultimately show ?thesis
    using assms unfolding same_letter_def of_char_lower_byte by auto
qed

lemma map_lower_byte_eq_iff:
  "list_all (\<lambda>d. \<not> (65 \<le> (of_char d :: nat) \<and> (of_char d :: nat) \<le> 90)) t \<Longrightarrow>
   (map lower_byte s = t) = equal_ignoring_case s t"
  unfolding equal_ignoring_case_def
proof (induction s arbitrary: t)
  case Nil
  then show ?case by auto
next
  case (Cons c s)
  then show ?case
    by (cases t) (auto simp: lower_byte_eq_iff)
qed

lemma canonical_no_upper:
  "is_canonical a \<Longrightarrow> list_all (\<lambda>d. \<not> (65 \<le> (of_char d :: nat) \<and> (of_char d :: nat) \<le> 90)) a"
  by (auto simp: is_canonical_def)

lemma canonical_plain: "is_canonical a \<Longrightarrow> list_all json_plain a"
  by (auto simp: is_canonical_def json_plain_def)

lemma canonical_ascii: "is_canonical a \<Longrightarrow> list_all is_ascii a"
  by (auto simp: is_canonical_def is_ascii_def)

lemma canonical_lower: "is_canonical a \<Longrightarrow> map lower_byte a = a"
  by (auto simp: is_canonical_def lower_byte_def)

lemma ToLower_canonical: "is_canonical a \<Longrightarrow> strings_ToLower L a = a"
  by (simp add: strings_ToLower_def canonical_ascii canonical_lower)

lemma is_canonical_consts:
  "is_canonical a = (a = AvailabilityAvailable \<or> a = AvailabilityUnavailable
     \<or> a = AvailabilityMonitoringDisabled)"
  by (simp add: is_canonical_def AvailabilityAvailable_def AvailabilityUnavailable_def
      AvailabilityMonitoringDisabled_def)

lemma json_Unmarshal_string_quoted:
  "list_all json_plain s \<Longrightarrow> json_Unmarshal_string L ([dq] @ s @ [dq]) = Inr s"
  by (simp add: json_Unmarshal_string_def butlast_append)

lemma json_Marshal_string_plain:
  "list_all json_plain s \<Longrightarrow> json_Marshal_string L s = Inr ([dq] @ s @ [dq])"
  by (simp add: json_Marshal_string_def)

lemma UnmarshalJSON_decoded:
  "json_Unmarshal_string L data = Inr text \<Longrightarrow>
   UnmarshalJSON L a data =
     (if is_canonical (strings_ToLower L text) then (None, strings_ToLower L text)
      else (Some (Errorf (''invalid availability: '' @ strconv_Quote L (strings_ToLower L text))), a))"
  by (simp add: UnmarshalJSON_def Let_def is_canonical_consts)

lemma MarshalJSON_canonical:
  "is_canonical a \<Longrightarrow> MarshalJSON L a = Inr ([dq] @ a @ [dq])"
  by (simp add: MarshalJSON_def is_canonical_consts [symmetric] json_Marshal_string_plain
      canonical_plain)

text \<open>
  C6, as the specification states it, fails: the text AVAILABLE written with the
  capital I with dot above (U+0130) matches none of the three values
  case-insensitively, and \<open>UnmarshalJSON\<close> accepts it, because
  \<^verbatim>\<open>strings.ToLower\<close> maps U+0130 to the letter \<^verbatim>\<open>i\<close>.
\<close>

theorem UnmarshalJSON_dotted_counterexample:
  "\<not> ((fst (UnmarshalJSON stub [] ([dq] @ AVAILABLE_dotted @ [dq])) = None)
        = (equal_ignoring_case AVAILABLE_dotted ''available'' \<or>
           equal_ignoring_case AVAILABLE_dotted ''unavailable'' \<or>
           equal_ignoring_case AVAILABLE_dotted ''monitoring disabled''))"
  by code_simp

text \<open>
  C6, amended. Let \<open>data\<close> decode, as a JSON string, to \<open>text\<close>. Then \<open>UnmarshalJSON\<close>
  succeeds exactly when \<^verbatim>\<open>strings.ToLower\<close> of the text is one of the three values,
  stores the lower-cased text when it does, and otherwise returns the error
  \<^verbatim>\<open>invalid availability\<close> and stores nothing. For a text of ASCII bytes, success
  is exactly a case-insensitive match with one of the three values, and every text
  that matches a value in this way decodes to that value.
\<close>

theorem UnmarshalJSON_accepts:
  assumes "json_Unmarshal_string L data = Inr text"
  shows "(fst (UnmarshalJSON L a data) = None) = is_canonical (strings_ToLower L text) \<and>
    (is_canonical (strings_ToLower L text) \<longrightarrow>
       UnmarshalJSON L a data = (None, strings_ToLower L text)) \<and>
    (\<not> is_canonical (strings_ToLower L text) \<longrightarrow>
       UnmarshalJSON L a data =
         (Some (Errorf (''invalid availability: '' @ strconv_Quote L (strings_ToLower L text))), a)) \<and>
    (list_all is_ascii text \<longrightarrow>
       (fst (UnmarshalJSON L a data) = None)
         = (\<exists>c. is_canonical c \<and> equal_ignoring_case text c)) \<and>
    (list_all is_ascii text \<longrightarrow>
       (\<forall>c. is_canonical c \<and> equal_ignoring_case text c \<longrightarrow> UnmarshalJSON L a data = (None, c)))"
proof -
  note u = UnmarshalJSON_decoded [OF assms, of a]
  have 1: "(fst (UnmarshalJSON L a data) = None) = is_canonical (strings_ToLower L text)"
    by (simp add: u)
  have 2: "is_canonical (strings_ToLower L text) \<longrightarrow>
       UnmarshalJSON L a data = (None, strings_ToLower L text)"
    by (simp add: u)
  have 3: "\<not> is_canonical (strings_ToLower L text) \<longrightarrow>
       UnmarshalJSON L a data =
         (Some (Errorf (''invalid availability: '' @ strconv_Quote L (strings_ToLower L text))), a)"
    by (simp add: u)
  have m: "is_canonical c \<Longrightarrow> (map lower_byte text = c) = equal_ignoring_case text c" for c
    by (rule map_lower_byte_eq_iff) (rule canonical_no_upper)
  have 4: "list_all is_ascii text \<longrightarrow>
       (fst (UnmarshalJSON L a data) = None)
         = (\<exists>c. is_canonical c \<and> equal_ignoring_case text c)"
  proof
    assume asc: "list_all is_ascii text"
    then have l: "strings_ToLower L text = map lower_byte text"
      by (simp add: strings_ToLower_def)
    show "(fst (UnmarshalJSON L a data) = None)
         = (\<exists>c. is_canonical c \<and> equal_ignoring_case text c)"
      unfolding 1 l using m by blast
  qed
  have 5: "list_all is_ascii text \<longrightarrow>
       (\<forall>c. is_canonical c \<and> equal_ignoring_case text c \<longrightarrow> UnmarshalJSON L a data = (None, c))"
  proof (intro impI allI)
    fix c
    assume asc: "list_all is_ascii text" and c: "is_canonical c \<and> equal_ignoring_case text c"
    from asc have l: "strings_ToLower L text = map lower_byte text"
      by (simp add: strings_ToLower_def)
    from c m have "map lower_byte text = c" by blast
    with l c u show "UnmarshalJSON L a data = (None, c)" by simp
  qed
  from 1 2 3 4 5 show ?thesis by blast
qed

theorem UnmarshalJSON_accepts_witness:
  "UnmarshalJSON stub [] ([dq] @ ''Available'' @ [dq]) = (None, ''available'') \<and>
   UnmarshalJSON stub [] ([dq] @ ''AVAILABLE'' @ [dq]) = (None, ''available'') \<and>
   UnmarshalJSON stub [] ([dq] @ ''available'' @ [dq]) = (None, ''available'') \<and>
   UnmarshalJSON stub [] ([dq] @ ''bogus'' @ [dq])
     = (Some (Errorf (''invalid availability: '' @ [dq] @ ''bogus'' @ [dq])), [])"
proof -
  have p: "list_all json_plain ''Available''" "list_all json_plain ''AVAILABLE''"
    "list_all json_plain ''available''" "list_all json_plain ''bogus''"
    by (simp_all add: json_plain_def)
  have l: "strings_ToLower stub ''Available'' = ''available''"
    "strings_ToLower stub ''AVAILABLE'' = ''available''"
    "strings_ToLower stub ''available'' = ''available''"
    "strings_ToLower stub ''bogus'' = ''bogus''"
    by code_simp+
  have c: "is_canonical ''available''" "\<not> is_canonical ''bogus''"
    by (simp_all add: is_canonical_def)
  from UnmarshalJSON_accepts [OF json_Unmarshal_string_quoted [OF p(1)], of stub "[]"]
    UnmarshalJSON_accepts [OF json_Unmarshal_string_quoted [OF p(2)], of stub "[]"]
    UnmarshalJSON_accepts [OF json_Unmarshal_string_quoted [OF p(3)], of stub "[]"]
    UnmarshalJSON_accepts [OF json_Unmarshal_string_quoted [OF p(4)], of stub "[]"]
    l c
  show ?thesis by (simp add: stub_def)
qed

text \<open>
  C7. Each of the three values encodes to its text between double quotes, which
  decodes to the value again, whatever the target held before; a value outside the
  three does not encode: \<open>MarshalJSON\<close> returns the error \<^verbatim>\<open>invalid availability\<close>
  and no bytes.
\<close>

theorem Availability_roundtrip:
  "(is_canonical a \<longrightarrow>
      MarshalJSON L a = Inr ([dq] @ a @ [dq]) \<and>
      UnmarshalJSON L a0 ([dq] @ a @ [dq]) = (None, a)) \<and>
   (\<not> is_canonical a \<longrightarrow>
      MarshalJSON L a = Inl (Errorf (''invalid availability: '' @ strconv_Quote L a)))"
proof (cases "is_canonical a")
  case True
  have "UnmarshalJSON L a0 ([dq] @ a @ [dq]) = (None, a)"
    using UnmarshalJSON_decoded [OF json_Unmarshal_string_quoted [OF canonical_plain [OF True]], of L a0]
      True
    by (simp add: ToLower_canonical)
  with True show ?thesis by (simp add: MarshalJSON_canonical)
next
  case False
  then show ?thesis
    by (simp add: MarshalJSON_def is_canonical_consts [symmetric])
qed

theorem Availability_roundtrip_witness:
  "MarshalJSON stub ''unavailable'' = Inr ([dq] @ ''unavailable'' @ [dq]) \<and>
   UnmarshalJSON stub [] ([dq] @ ''unavailable'' @ [dq]) = (None, ''unavailable'') \<and>
   MarshalJSON stub ''bogus'' = Inl (Errorf (''invalid availability: '' @ [dq] @ ''bogus'' @ [dq]))"
proof -
  have c: "is_canonical ''unavailable''" "\<not> is_canonical ''bogus''"
    by (simp_all add: is_canonical_def)
  from Availability_roundtrip [of "''unavailable''" stub "[]"]
    Availability_roundtrip [of "''bogus''" stub "[]"] c
  show ?thesis by (simp add: stub_def)
qed

text \<open>
  C9. A value stored by a successful \<open>UnmarshalJSON\<close> is one of the three values, is
  the lower-cased form of the decoded text and has no upper-case letter; encoding it
  succeeds and gives that lower-case text between double quotes.
\<close>

theorem UnmarshalJSON_result_canonical:
  assumes "fst (UnmarshalJSON L a0 data) = None"
  shows "is_canonical (snd (UnmarshalJSON L a0 data)) \<and>
    map lower_byte (snd (UnmarshalJSON L a0 data)) = snd (UnmarshalJSON L a0 data) \<and>
    MarshalJSON L (snd (UnmarshalJSON L a0 data))
      = Inr ([dq] @ snd (UnmarshalJSON L a0 data) @ [dq]) \<and>
    (\<exists>text. json_Unmarshal_string L data = Inr text \<and>
       snd (UnmarshalJSON L a0 data) = strings_ToLower L text)"
proof (cases "json_Unmarshal_string L data")
  case (Inl err)
  with assms show ?thesis by (simp add: UnmarshalJSON_def)
next
  case (Inr decoded)
  note u = UnmarshalJSON_decoded [OF Inr, of a0]
  from assms u have c: "is_canonical (strings_ToLower L decoded)"
    by (auto split: if_splits)
  with u have s: "snd (UnmarshalJSON L a0 data) = strings_ToLower L decoded" by simp
  from c s Inr show ?thesis
    by (simp add: canonical_lower MarshalJSON_canonical)
qed

theorem UnmarshalJSON_result_canonical_witness:
  "UnmarshalJSON stub [] ([dq] @ ''Monitoring Disabled'' @ [dq]) = (None, ''monitoring disabled'') \<and>
   MarshalJSON stub ''monitoring disabled'' = Inr ([dq] @ ''monitoring disabled'' @ [dq])"
proof -
  have e: "UnmarshalJSON stub [] ([dq] @ ''Monitoring Disabled'' @ [dq]) = (None, ''monitoring disabled'')"
    by code_simp
  then have h: "fst (UnmarshalJSON stub [] ([dq] @ ''Monitoring Disabled'' @ [dq])) = None"
    by simp
  from UnmarshalJSON_result_canonical [OF h] e show ?thesis by simp
qed

subsection \<open>Construction\<close>

text \<open>
  C5, as the specification states it, fails: the endpoint \<^verbatim>\<open>api\<close> is a relative
  reference, which \<^verbatim>\<open>url.Parse\<close> accepts with an empty scheme. It does not parse
  as an absolute URL, and \<open>NewValidator\<close> returns a Validator for it, since the only
  check of the endpoint is the error of \<^verbatim>\<open>url.Parse\<close>.
\<close>

theorem NewValidator_relative_counterexample:
  "\<not> (\<not> parses_absolute stub ''api'' \<longrightarrow> isl (NewValidator stub None ''api''))"
  by (simp add: parses_absolute_def NewValidator_def stub_def stub_Parse_def ViesEndpointUrl_def)

text \<open>
  C5, amended. An empty endpoint is replaced by \<open>ViesEndpointUrl\<close>. When
  \<^verbatim>\<open>url.Parse\<close> rejects the endpoint, \<open>NewValidator\<close> returns that error and no
  Validator; when \<^verbatim>\<open>url.Parse\<close> accepts it, absolute or not, \<open>NewValidator\<close>
  returns the Validator holding the parsed URL and the given or the default client.
\<close>

theorem NewValidator_parse:
  "NewValidator L cl [] = NewValidator L cl ViesEndpointUrl \<and>
   (url_Parse L (if ep = [] then ViesEndpointUrl else ep) = Inl err \<longrightarrow>
      NewValidator L cl ep = Inl (LibraryError err)) \<and>
   (url_Parse L (if ep = [] then ViesEndpointUrl else ep) = Inr u \<longrightarrow>
      NewValidator L cl ep =
        Inr \<lparr>endpoint = u,
             client = (case cl of None \<Rightarrow> http_DefaultClient L | Some c \<Rightarrow> c)\<rparr>)"
  by (simp add: NewValidator_def ViesEndpointUrl_def)

theorem NewValidator_parse_witness:
  "NewValidator stub None ''http://[::1''
     = Inl (LibraryError (''parse '' @ [dq] @ ''http://[::1'' @ [dq] @ '': rejected'')) \<and>
   NewValidator stub None [] =
     Inr \<lparr>endpoint = StubURL ''https'' ''//ec.europa.eu/taxation_customs/vies/rest-api/'',
          client = http_DefaultClient stub\<rparr> \<and>
   NewValidator stub None ''api''
     = Inr \<lparr>endpoint = StubURL [] ''api'', client = http_DefaultClient stub\<rparr>"
proof -
  have a: "url_Parse stub (if ''http://[::1'' = [] then ViesEndpointUrl else ''http://[::1'')
     = Inl (''parse '' @ [dq] @ ''http://[::1'' @ [dq] @ '': rejected'')"
    by (simp add: stub_def stub_Parse_def ViesEndpointUrl_def)
  have b: "url_Parse stub (if [] = [] then ViesEndpointUrl else [])
     = Inr (StubURL ''https'' ''//ec.europa.eu/taxation_customs/vies/rest-api/'')"
    by (simp add: stub_def stub_Parse_def ViesEndpointUrl_def)
  have c: "url_Parse stub (if ''api'' = [] then ViesEndpointUrl else ''api'')
     = Inr (StubURL [] ''api'')"
    by (simp add: stub_def stub_Parse_def ViesEndpointUrl_def)
  from NewValidator_parse [of stub None "''http://[::1''" _ "StubURL [] []"] a
    NewValidator_parse [of stub None "[]" "[]" "StubURL ''https'' ''//ec.europa.eu/taxation_customs/vies/rest-api/''"] b
    NewValidator_parse [of stub None "''api''" "[]" "StubURL [] ''api''"] c
  show ?thesis by simp
qed

end
